theory Spec2Isabelle
  imports Complex_Main
begin

section \<open>Data model of the batch pipeline (pipeline.py)\<close>

text \<open>
  \<^verbatim>\<open>current_image_data\<close> (pipeline.py, lines 241-248) is a dict with a fixed set of keys;
  it is a record here. Text blocks and decoded images come from modules that the
  orchestrator only passes around, so their types are parameters \<open>'blk\<close> and \<open>'img\<close>.
  \<^verbatim>\<open>trg_lng_cd\<close> may be \<^verbatim>\<open>None\<close>.
\<close>

record ('blk, 'img) image_data =
  image_path :: string
  original_index :: nat
  image :: 'img
  blk_list :: "'blk list"
  source_lang :: string
  target_lang :: string
  base_name :: string
  extension :: string
  archive_bname :: string
  timestamp :: string
  directory :: string
  trg_lng_cd :: "string option"
  inpaint_input_img_rgb :: 'img
  skipped :: bool
  error_message :: string

text \<open>
  The same dict object is reachable from \<^verbatim>\<open>translation_batches\<close>, from
  \<^verbatim>\<open>image_batches_data\<close> and from \<^verbatim>\<open>batch_indices_map\<close>, and it is mutated through
  each of them. The objects therefore live in a store addressed by references
  (allocation numbers), and the three containers hold references.
\<close>

type_synonym ref = nat

type_synonym ('blk, 'img) store = "ref \<Rightarrow> ('blk, 'img) image_data"

text \<open>
  A Python dict keeps insertion order; assigning to a key that is already present
  replaces the value and keeps the key's position.
\<close>

fun dict_set :: "'k \<Rightarrow> 'v \<Rightarrow> ('k \<times> 'v) list \<Rightarrow> ('k \<times> 'v) list" where
  "dict_set k v [] = [(k, v)]"
| "dict_set k v ((k', v') # m) =
     (if k = k' then (k, v) # m else (k', v') # dict_set k v m)"

text \<open>Python's \<^verbatim>\<open>xs[start:end]\<close> for non-negative bounds: out-of-range bounds are clipped.\<close>

definition slice :: "'a list \<Rightarrow> nat \<Rightarrow> nat \<Rightarrow> 'a list" where
  "slice xs start end = drop start (take end xs)"

section \<open>Flushing a translation batch (pipeline.py, lines 254-289)\<close>

text \<open>
  The local variables of the accumulation loop (lines 254-268). \<^verbatim>\<open>Translator(main_page,
  source_lang, target_lang)\<close> is represented by the pair of languages passed to its
  constructor; \<^verbatim>\<open>None\<close> is \<open>None\<close>.
\<close>

record 'blk flush_acc =
  combined_blk_list :: "'blk list"
  batch_indices_map :: "((nat \<times> nat) \<times> ref) list"
  current_combined_index :: nat
  translator :: "(string \<times> string) option"

definition flush_init :: "'blk flush_acc" where
  "flush_init = \<lparr>combined_blk_list = [], batch_indices_map = [],
     current_combined_index = 0, translator = None\<rparr>"

text \<open>The body of \<^verbatim>\<open>for data in translation_batches\<close> (lines 259-268), one record per step.\<close>

fun accumulate ::
  "('blk, 'img) store \<Rightarrow> ref list \<Rightarrow> 'blk flush_acc \<Rightarrow> 'blk flush_acc" where
  "accumulate st [] a = a"
| "accumulate st (data # rest) a =
     (let start_index = current_combined_index a;
          img_blk_list = blk_list (st data);
          end_index = current_combined_index a + length img_blk_list
      in accumulate st rest
           \<lparr>combined_blk_list = combined_blk_list a @ img_blk_list,
            batch_indices_map =
              dict_set (start_index, end_index) data (batch_indices_map a),
            current_combined_index = end_index,
            translator =
              (case translator a of
                 None \<Rightarrow> Some (source_lang (st data), target_lang (st data))
               | Some t \<Rightarrow> Some t)\<rparr>)"

text \<open>
  A list of half-open ranges is contiguous from \<open>k\<close> to \<open>n\<close> when the first range starts
  at \<open>k\<close>, every range starts where the one before it ends, and the last one ends at \<open>n\<close>.
\<close>

fun contiguous :: "nat \<Rightarrow> (nat \<times> nat) list \<Rightarrow> nat \<Rightarrow> bool" where
  "contiguous k [] n = (k = n)"
| "contiguous k ((s, e) # rs) n = (s = k \<and> s \<le> e \<and> contiguous e rs n)"

definition range_len :: "(nat \<times> nat) \<times> ref \<Rightarrow> nat" where
  "range_len entry = snd (fst entry) - fst (fst entry)"


text \<open>The invariant of the accumulation loop, used to prove the partition property.\<close>

definition flush_inv :: "('blk, 'img) store \<Rightarrow> 'blk flush_acc \<Rightarrow> bool" where
  "flush_inv st a \<longleftrightarrow>
     contiguous 0 (map fst (batch_indices_map a)) (current_combined_index a) \<and>
     current_combined_index a = length (combined_blk_list a) \<and>
     list_all (\<lambda>entry. range_len entry = length (blk_list (st (snd entry))))
       (batch_indices_map a) \<and>
     sum_list (map range_len (batch_indices_map a)) = current_combined_index a"

section \<open>The collaborators and the observable effects of a run\<close>

text \<open>
  An entry of \<^verbatim>\<open>file_handler.archive_info\<close>; \<^verbatim>\<open>archive.get('extracted_images', [])\<close>
  is the list (empty when the key is absent).
\<close>

record archive =
  archive_path :: string
  extracted_images :: "string list"

text \<open>
  A path is the list of components handed to \<^verbatim>\<open>os.path.join\<close>. Everything
  \<^verbatim>\<open>batch_process\<close> does to the outside world is an event, appended to a trace in
  program order. \<open>EnsureDir p\<close> is \<^verbatim>\<open>if not os.path.exists(p): os.makedirs(p, exist_ok=True)\<close>,
  \<open>RmtreeIfExists p\<close> is \<^verbatim>\<open>if os.path.exists(p): shutil.rmtree(p)\<close> and
  \<open>RmtreeIfEmpty p\<close> is \<^verbatim>\<open>if is_directory_empty(p): shutil.rmtree(p)\<close>: the test is
  made by the file system at that moment. \<open>TranslateCall\<close> is one call of
  \<^verbatim>\<open>translator.translate\<close>, with the translator's languages and the three arguments.
  \<open>RenderSave\<close> is the rendering and saving of lines 352-408, with the target file, the
  inpainted RGB image and the block list that is rendered.
\<close>

type_synonym path = "string list"

datatype ('blk, 'img) event =
    ProgressUpdate nat nat nat nat bool
  | EnsureDir path
  | ImWrite path 'img
  | ImageSkipped string string string
  | LogAppend path string
  | ImageProcessed nat 'img string
  | TranslateCall "string \<times> string" "'blk list" 'img string
  | WriteRawText path "'blk list"
  | WriteTranslatedText path "'blk list"
  | RenderSave path 'img "'blk list"
  | MakeArchive string path string string
  | RmtreeIfExists path
  | RmtreeIfEmpty path

text \<open>
  The inputs of a run and the modules \<^verbatim>\<open>batch_process\<close> calls but does not define.
  A call that can raise returns \<open>Inl\<close> of the exception's message. \<open>is_cancelled n\<close> is
  the value of \<^verbatim>\<open>current_worker.is_cancelled\<close> at the \<open>n\<close>-th time the run reads it: the
  flag is set from outside the run. \<open>ocr_process\<close> returns the block list as
  \<^verbatim>\<open>self.ocr.process\<close> leaves it; \<open>inpaint\<close> is the inpainter call of lines 227-228
  (with \<^verbatim>\<open>convertScaleAbs\<close>); \<open>text_json_error\<close> is the message of the
  \<^verbatim>\<open>json.JSONDecodeError\<close> of lines 320-324, if one is raised; \<open>make_archive\<close> gives the
  message of the exception that \<^verbatim>\<open>make\<close> raises, if it raises.
\<close>

record ('blk, 'img) env =
  image_files :: "string list"
  image_states :: "string \<Rightarrow> string \<times> string"
  lang_mapping :: "string \<Rightarrow> string option"
  get_language_code :: "string option \<Rightarrow> string option"
  path_splitext_basename :: "string \<Rightarrow> string"
  path_ext :: "string \<Rightarrow> string"
  path_dirname :: "string \<Rightarrow> string"
  str_lower :: "string \<Rightarrow> string"
  archive_info :: "archive list"
  now_timestamp :: string
  extra_context :: string
  export_inpainted_image :: bool
  export_raw_text :: bool
  export_translated_text :: bool
  save_as :: "string \<Rightarrow> string option"
  imread :: "string \<Rightarrow> 'img option"
  detect :: "'img \<Rightarrow> string + 'blk list"
  ocr_process :: "string \<Rightarrow> 'img \<Rightarrow> 'blk list \<Rightarrow> string + 'blk list"
  sort_blk_list :: "'blk list \<Rightarrow> bool \<Rightarrow> string + 'blk list"
  inpaint :: "'img \<Rightarrow> 'blk list \<Rightarrow> string + 'img"
  cvt_bgr2rgb :: "'img \<Rightarrow> 'img"
  translate :: "string \<times> string \<Rightarrow> 'blk list \<Rightarrow> 'img \<Rightarrow> string \<Rightarrow> string + 'blk list"
  text_json_error :: "'blk list \<Rightarrow> string option"
  make_archive :: "string \<Rightarrow> path \<Rightarrow> string \<Rightarrow> string \<Rightarrow> string option"
  is_cancelled :: "nat \<Rightarrow> bool"

text \<open>
  The mutable state of a run: the store of record objects, the two containers of
  lines 156-157, the trace, the number of reads of the cancellation flag so far, and
  whether \<^verbatim>\<open>main_page.current_worker\<close> is set (the run sets it to \<^verbatim>\<open>None\<close> when it
  observes a cancellation).
\<close>

record ('blk, 'img) state =
  store :: "('blk, 'img) store"
  next_ref :: ref
  translation_batches :: "ref list"
  image_batches_data :: "(string \<times> ref) list"
  trace :: "('blk, 'img) event list"
  polls :: nat
  current_worker :: bool

text \<open>How a loop body ends: with the next iteration, with \<^verbatim>\<open>break\<close>, or with an
  exception that nothing in \<^verbatim>\<open>batch_process\<close> catches.\<close>

datatype ctl = Continue | Break | Raise string

definition emit :: "('blk, 'img) event \<Rightarrow> ('blk, 'img) state \<Rightarrow> ('blk, 'img) state" where
  "emit e s = s\<lparr>trace := trace s @ [e]\<rparr>"

text \<open>
  \<^verbatim>\<open>self.main_page.current_worker and self.main_page.current_worker.is_cancelled\<close>:
  the flag is read only while a worker is set.
\<close>

definition check_cancel ::
  "('blk, 'img) env \<Rightarrow> ('blk, 'img) state \<Rightarrow> bool \<times> ('blk, 'img) state" where
  "check_cancel env s =
     (if current_worker s
      then (is_cancelled env (polls s), s\<lparr>polls := Suc (polls s)\<rparr>)
      else (False, s))"

definition run_dir :: "string \<Rightarrow> string \<Rightarrow> path" where
  "run_dir dir ts = [dir, ''comic_translate_'' @ ts]"

text \<open>\<^verbatim>\<open>skip_save\<close> (lines 136-140) and \<^verbatim>\<open>log_skipped_image\<close> (lines 142-145).\<close>

definition skip_save ::
  "string \<Rightarrow> string \<Rightarrow> string \<Rightarrow> string \<Rightarrow> string \<Rightarrow> 'img \<Rightarrow>
   ('blk, 'img) state \<Rightarrow> ('blk, 'img) state" where
  "skip_save dir ts bname ext abname img s =
     (let path = run_dir dir ts @ [''translated_images'', abname]
      in emit (ImWrite (path @ [bname @ ''_translated'' @ ext]) img)
           (emit (EnsureDir path) s))"

definition log_skipped_image ::
  "string \<Rightarrow> string \<Rightarrow> string \<Rightarrow> ('blk, 'img) state \<Rightarrow> ('blk, 'img) state" where
  "log_skipped_image dir ts ipath s =
     emit (LogAppend (run_dir dir ts @ [''skipped_images.log'']) ipath) s"


section \<open>The main image loop of \<^verbatim>\<open>batch_process\<close> (lines 160-289)\<close>

text \<open>The locals computed at the top of each iteration (lines 164-178).\<close>

definition source_lang_of :: "('blk, 'img) env \<Rightarrow> string \<Rightarrow> string" where
  "source_lang_of env ipath = fst (image_states env ipath)"

definition target_lang_of :: "('blk, 'img) env \<Rightarrow> string \<Rightarrow> string" where
  "target_lang_of env ipath = snd (image_states env ipath)"

definition trg_lng_cd_of :: "('blk, 'img) env \<Rightarrow> string \<Rightarrow> string option" where
  "trg_lng_cd_of env ipath =
     get_language_code env (lang_mapping env (target_lang_of env ipath))"

text \<open>The search of lines 174-178: the first archive that lists the image wins.\<close>

fun find_archive ::
  "('blk, 'img) env \<Rightarrow> archive list \<Rightarrow> string \<Rightarrow> string \<times> string \<Rightarrow> string \<times> string" where
  "find_archive env [] ipath cur = cur"
| "find_archive env (a # rest) ipath cur =
     (if ipath \<in> set (extracted_images a)
      then (path_dirname env (archive_path a), path_splitext_basename env (archive_path a))
      else find_archive env rest ipath cur)"

definition directory_of :: "('blk, 'img) env \<Rightarrow> string \<Rightarrow> string" where
  "directory_of env ipath =
     fst (find_archive env (archive_info env) ipath (path_dirname env ipath, []))"

definition archive_bname_of :: "('blk, 'img) env \<Rightarrow> string \<Rightarrow> string" where
  "archive_bname_of env ipath =
     snd (find_archive env (archive_info env) ipath (path_dirname env ipath, []))"

definition batch_size :: nat where
  "batch_size = 10"

text \<open>Lines 285-287: every record of the batch is marked, through its reference.\<close>

fun mark_skipped ::
  "string \<Rightarrow> ref list \<Rightarrow> ('blk, 'img) store \<Rightarrow> ('blk, 'img) store" where
  "mark_skipped msg [] st = st"
| "mark_skipped msg (data # rest) st =
     mark_skipped msg rest (st(data := (st data)\<lparr>skipped := True, error_message := msg\<rparr>))"

text \<open>Lines 281-282: the translated list is sliced back through the ranges.\<close>

fun distribute ::
  "'blk list \<Rightarrow> ((nat \<times> nat) \<times> ref) list \<Rightarrow> ('blk, 'img) store \<Rightarrow> ('blk, 'img) store" where
  "distribute translated [] st = st"
| "distribute translated (((start, end), original_data) # rest) st =
     distribute translated rest
       (st(original_data := (st original_data)\<lparr>blk_list := slice translated start end\<rparr>))"

text \<open>
  Lines 254-289. \<open>translate\<close> returning \<open>Inl msg\<close> stands for any exception raised
  inside the \<^verbatim>\<open>try\<close> of line 273, with \<^verbatim>\<open>str(e) = msg\<close>. \<^verbatim>\<open>translation_batches[0]\<close>
  on an empty list would raise inside that \<^verbatim>\<open>try\<close> and mark no record; the translator
  is only set when the batch has a first record, so that branch is never taken.
\<close>

definition flush_batch ::
  "('blk, 'img) env \<Rightarrow> nat \<Rightarrow> ('blk, 'img) state \<Rightarrow> ctl \<times> ('blk, 'img) state" where
  "flush_batch env index s =
     (let a = accumulate (store s) (translation_batches s) flush_init
      in case translator a of
           None \<Rightarrow> (Continue, s\<lparr>translation_batches := []\<rparr>)
         | Some t \<Rightarrow>
             if combined_blk_list a = [] then (Continue, s\<lparr>translation_batches := []\<rparr>)
             else
               let (cancelled, s1) = check_cancel env
                     (emit (ProgressUpdate index (length (image_files env)) 6 10 False) s)
               in if cancelled then (Break, s1)
                  else
                    (case translation_batches s1 of
                       [] \<Rightarrow> (Continue, s1\<lparr>translation_batches := []\<rparr>)
                     | first # _ \<Rightarrow>
                         let representative_image = image (store s1 first);
                             s2 = emit (TranslateCall t (combined_blk_list a)
                                    representative_image (extra_context env)) s1
                         in (case translate env t (combined_blk_list a)
                                    representative_image (extra_context env) of
                               Inr translated \<Rightarrow>
                                 (Continue,
                                  s2\<lparr>store := distribute translated (batch_indices_map a) (store s2),
                                     translation_batches := []\<rparr>)
                             | Inl msg \<Rightarrow>
                                 (Continue,
                                  s2\<lparr>store := mark_skipped msg (translation_batches s2) (store s2),
                                     translation_batches := []\<rparr>))))"

text \<open>
  Lines 240-253: the record is created, entered under its path, appended to the batch,
  and the batch is flushed when it holds \<open>batch_size\<close> records or the image is the last
  of the run (Python integers: \<^verbatim>\<open>index == total_images - 1\<close>).
\<close>

definition stage_translate ::
  "('blk, 'img) env \<Rightarrow> nat \<Rightarrow> string \<Rightarrow> 'img \<Rightarrow> 'blk list \<Rightarrow> 'img \<Rightarrow>
   ('blk, 'img) state \<Rightarrow> ctl \<times> ('blk, 'img) state" where
  "stage_translate env index ipath img blks rgb s =
     (let current_image_data =
            \<lparr>image_path = ipath, original_index = index, image = img, blk_list = blks,
             source_lang = source_lang_of env ipath, target_lang = target_lang_of env ipath,
             base_name = path_splitext_basename env ipath, extension = path_ext env ipath,
             archive_bname = archive_bname_of env ipath, timestamp = now_timestamp env,
             directory = directory_of env ipath, trg_lng_cd = trg_lng_cd_of env ipath,
             inpaint_input_img_rgb = rgb, skipped = False, error_message = []\<rparr>;
          r = next_ref s;
          s1 = s\<lparr>store := (store s)(r := current_image_data),
                 next_ref := Suc r,
                 image_batches_data := dict_set ipath r (image_batches_data s),
                 translation_batches := translation_batches s @ [r]\<rparr>
      in if length (translation_batches s1) = batch_size \<or>
            int index = int (length (image_files env)) - 1
         then flush_batch env index s1
         else (Continue, s1))"

text \<open>
  Lines 216-238. \<open>inpaint\<close> is the inpainter call with \<^verbatim>\<open>convertScaleAbs\<close>; an exception
  there is not caught anywhere in \<^verbatim>\<open>batch_process\<close>. The inpainter cache, the mask and the
  image history of the user interface carry no claim and are left out.
\<close>

definition stage_inpaint ::
  "('blk, 'img) env \<Rightarrow> nat \<Rightarrow> string \<Rightarrow> 'img \<Rightarrow> 'blk list \<Rightarrow>
   ('blk, 'img) state \<Rightarrow> ctl \<times> ('blk, 'img) state" where
  "stage_inpaint env index ipath img blks s =
     (let total_images = length (image_files env);
          (cancelled, s1) = check_cancel env
             (emit (ProgressUpdate index total_images 4 10 False) s)
      in if cancelled then (Break, s1)
         else
           (case inpaint env img blks of
              Inl e \<Rightarrow> (Raise e, s1)
            | Inr inpaint_input_img \<Rightarrow>
                let s2 = emit (ImageProcessed index inpaint_input_img ipath) s1;
                    path = run_dir (directory_of env ipath) (now_timestamp env)
                             @ [''cleaned_images'', archive_bname_of env ipath];
                    s3 = (if export_inpainted_image env
                          then emit (ImWrite (path @ [path_splitext_basename env ipath
                                        @ ''_cleaned'' @ path_ext env ipath]) inpaint_input_img)
                                 (emit (EnsureDir path) s2)
                          else s2);
                    (cancelled, s4) = check_cancel env
                       (emit (ProgressUpdate index total_images 5 10 False) s3)
                in if cancelled then (Break, s4)
                   else stage_translate env index ipath img blks
                          (cvt_bgr2rgb env inpaint_input_img) s4))"

text \<open>
  Lines 200-214. \<open>ocr_and_sort\<close> is the body of the \<^verbatim>\<open>try\<close> (lines 203-206): an
  exception of \<^verbatim>\<open>self.ocr.process\<close> or of \<^verbatim>\<open>sort_blk_list\<close> is caught by the
  \<^verbatim>\<open>except Exception\<close> of line 207.
\<close>

definition ocr_and_sort ::
  "('blk, 'img) env \<Rightarrow> string \<Rightarrow> 'img \<Rightarrow> 'blk list \<Rightarrow> string + 'blk list" where
  "ocr_and_sort env ipath img blks =
     (let src = source_lang_of env ipath;
          source_lang_english = (case lang_mapping env src of None \<Rightarrow> src | Some l \<Rightarrow> l);
          rtl = (source_lang_english = ''Japanese'')
      in case ocr_process env src img blks of
           Inl e \<Rightarrow> Inl e
         | Inr ocr_blks \<Rightarrow> sort_blk_list env ocr_blks rtl)"

definition stage_ocr ::
  "('blk, 'img) env \<Rightarrow> nat \<Rightarrow> string \<Rightarrow> 'img \<Rightarrow> 'blk list \<Rightarrow>
   ('blk, 'img) state \<Rightarrow> ctl \<times> ('blk, 'img) state" where
  "stage_ocr env index ipath img blks s =
     (case ocr_and_sort env ipath img blks of
        Inl error_msg \<Rightarrow>
          (Continue,
           log_skipped_image (directory_of env ipath) (now_timestamp env) ipath
             (emit (ImageSkipped ipath ''OCR'' error_msg)
                (skip_save (directory_of env ipath) (now_timestamp env)
                   (path_splitext_basename env ipath) (path_ext env ipath)
                   (archive_bname_of env ipath) img s)))
      | Inr sorted_blks \<Rightarrow>
          let (cancelled, s1) = check_cancel env
                (emit (ProgressUpdate index (length (image_files env)) 3 10 False) s)
          in if cancelled then (Break, s1)
             else stage_inpaint env index ipath img sorted_blks s1)"

text \<open>
  One iteration of the loop of line 160, from line 162. An exception of the detector
  (line 190) is not caught.
\<close>

definition image_step ::
  "('blk, 'img) env \<Rightarrow> nat \<Rightarrow> string \<Rightarrow> ('blk, 'img) state \<Rightarrow> ctl \<times> ('blk, 'img) state" where
  "image_step env index ipath s =
     (let total_images = length (image_files env);
          s1 = emit (ProgressUpdate index total_images 0 10 True) s
      in case imread env ipath of
           None \<Rightarrow>
             (Continue, log_skipped_image (directory_of env ipath) (now_timestamp env) ipath s1)
         | Some img \<Rightarrow>
             let (cancelled, s2) = check_cancel env
                   (emit (ProgressUpdate index total_images 1 10 False) s1)
             in if cancelled then (Break, s2)
                else
                  (case detect env img of
                     Inl e \<Rightarrow> (Raise e, s2)
                   | Inr blks \<Rightarrow>
                       let (cancelled, s3) = check_cancel env
                             (emit (ProgressUpdate index total_images 2 10 False) s2)
                       in if cancelled then (Break, s3)
                          else if blks = [] then
                            (Continue,
                             log_skipped_image (directory_of env ipath) (now_timestamp env) ipath
                               (emit (ImageSkipped ipath ''Text Blocks'' [])
                                  (skip_save (directory_of env ipath) (now_timestamp env)
                                     (path_splitext_basename env ipath) (path_ext env ipath)
                                     (archive_bname_of env ipath) img s3)))
                          else stage_ocr env index ipath img blks s3))"

text \<open>
  \<^verbatim>\<open>for index, image_path in enumerate(self.main_page.image_files)\<close>: \<^verbatim>\<open>continue\<close>
  and the end of the body go to the next image, \<^verbatim>\<open>break\<close> and an exception leave the loop.
\<close>

fun main_loop ::
  "('blk, 'img) env \<Rightarrow> nat \<Rightarrow> string list \<Rightarrow> ('blk, 'img) state \<Rightarrow>
   ctl \<times> ('blk, 'img) state" where
  "main_loop env index [] s = (Continue, s)"
| "main_loop env index (ipath # rest) s =
     (case image_step env index ipath s of
        (Continue, s') \<Rightarrow> main_loop env (Suc index) rest s'
      | (Break, s') \<Rightarrow> (Break, s')
      | (Raise e, s') \<Rightarrow> (Raise e, s'))"


section \<open>Post-translation processing (lines 292-416)\<close>

text \<open>
  One iteration of \<^verbatim>\<open>for image_path, processed_data in image_batches_data.items()\<close>.
  The layout computations of lines 352-397 change only the user interface's session
  state; what leaves the run is the file written by \<^verbatim>\<open>renderer.save_image\<close>.
\<close>

definition finalize_image ::
  "('blk, 'img) env \<Rightarrow> string \<Rightarrow> ref \<Rightarrow> ('blk, 'img) state \<Rightarrow> ctl \<times> ('blk, 'img) state" where
  "finalize_image env ipath r s =
     (let processed_data = store s r;
          index = original_index processed_data;
          total_images = length (image_files env);
          root = run_dir (directory processed_data) (timestamp processed_data)
      in if skipped processed_data then
           (Continue,
            log_skipped_image (directory processed_data) (timestamp processed_data) ipath
              (emit (ImageSkipped ipath ''Translator'' (error_message processed_data))
                 (skip_save (directory processed_data) (timestamp processed_data)
                    (base_name processed_data) (extension processed_data)
                    (archive_bname processed_data) (image processed_data) s)))
         else
           (case text_json_error env (blk_list processed_data) of
              Some e \<Rightarrow>
                (Continue,
                 log_skipped_image (directory processed_data) (timestamp processed_data) ipath
                   (emit (ImageSkipped ipath ''Translator'' (''JSON Decode Error: '' @ e))
                      (skip_save (directory processed_data) (timestamp processed_data)
                         (base_name processed_data) (extension processed_data)
                         (archive_bname processed_data) (image processed_data) s)))
            | None \<Rightarrow>
                let raw_path = root @ [''raw_texts'', archive_bname processed_data];
                    s1 = (if export_raw_text env
                          then emit (WriteRawText
                                       (raw_path @ [base_name processed_data @ ''_raw.txt''])
                                       (blk_list processed_data))
                                 (emit (EnsureDir raw_path) s)
                          else s);
                    tr_path = root @ [''translated_texts'', archive_bname processed_data];
                    s2 = (if export_translated_text env
                          then emit (WriteTranslatedText
                                       (tr_path @ [base_name processed_data @ ''_translated.txt''])
                                       (blk_list processed_data))
                                 (emit (EnsureDir tr_path) s1)
                          else s1);
                    (cancelled, s3) = check_cancel env
                       (emit (ProgressUpdate index total_images 7 10 False) s2)
                in if cancelled then (Break, s3)
                   else
                     let (cancelled, s4) = check_cancel env
                           (emit (ProgressUpdate index total_images 8 10 False) s3)
                     in if cancelled then (Break, s4)
                        else
                          let render_save_dir =
                                root @ [''translated_images'', archive_bname processed_data];
                              sv_pth = render_save_dir
                                @ [base_name processed_data @ ''_translated''
                                     @ extension processed_data];
                              s5 = emit (RenderSave sv_pth
                                           (inpaint_input_img_rgb processed_data)
                                           (blk_list processed_data))
                                     (emit (EnsureDir render_save_dir) s4);
                              (cancelled, s6) = check_cancel env
                                 (emit (ProgressUpdate index total_images 9 10 False) s5)
                          in if cancelled then (Break, s6) else (Continue, s6)))"

fun post_loop ::
  "('blk, 'img) env \<Rightarrow> (string \<times> ref) list \<Rightarrow> ('blk, 'img) state \<Rightarrow>
   ctl \<times> ('blk, 'img) state" where
  "post_loop env [] s = (Continue, s)"
| "post_loop env ((ipath, r) # rest) s =
     (case finalize_image env ipath r s of
        (Continue, s') \<Rightarrow> post_loop env rest s'
      | (Break, s') \<Rightarrow> (Break, s')
      | (Raise e, s') \<Rightarrow> (Raise e, s'))"

section \<open>The archiving pass (lines 418-460)\<close>

text \<open>
  One iteration of \<^verbatim>\<open>for archive_index, archive in enumerate(archive_info_list)\<close>.
  \<^verbatim>\<open>save_as_settings[archive_ext.lower()]\<close> raises \<^verbatim>\<open>KeyError\<close> on a missing key, and
  \<^verbatim>\<open>make\<close> is called outside any \<^verbatim>\<open>try\<close>: both exceptions leave \<^verbatim>\<open>batch_process\<close>.
\<close>

definition archive_step ::
  "('blk, 'img) env \<Rightarrow> nat \<Rightarrow> archive \<Rightarrow> ('blk, 'img) state \<Rightarrow> ctl \<times> ('blk, 'img) state" where
  "archive_step env archive_index a s =
     (let total_images = length (image_files env);
          archive_index_input = total_images + archive_index;
          (cancelled, s1) = check_cancel env
             (emit (ProgressUpdate archive_index_input total_images 1 3 True) s)
      in if cancelled then (Break, s1\<lparr>current_worker := False\<rparr>)
         else
           let apath = archive_path a;
               archive_ext = path_ext env apath;
               abname = path_splitext_basename env apath;
               archive_directory = path_dirname env apath
           in (case save_as env (str_lower env archive_ext) of
                 None \<Rightarrow> (Raise ''KeyError'', s1)
               | Some fmt \<Rightarrow>
                   let save_as_ext = ''.'' @ fmt;
                       check_from = run_dir archive_directory (now_timestamp env);
                       save_dir = check_from @ [''translated_images'', abname];
                       (cancelled, s2) = check_cancel env
                          (emit (ProgressUpdate archive_index_input total_images 2 3 True) s1)
                   in if cancelled then (Break, s2\<lparr>current_worker := False\<rparr>)
                      else
                        let s3 = emit (MakeArchive save_as_ext save_dir archive_directory abname) s2
                        in (case make_archive env save_as_ext save_dir archive_directory abname of
                              Some e \<Rightarrow> (Raise e, s3)
                            | None \<Rightarrow>
                                let (cancelled, s4) = check_cancel env
                                      (emit (ProgressUpdate archive_index_input total_images 3 3 True) s3)
                                in if cancelled then (Break, s4\<lparr>current_worker := False\<rparr>)
                                   else (Continue,
                                         emit (RmtreeIfEmpty check_from)
                                           (emit (RmtreeIfExists save_dir) s4)))))"

fun archive_loop ::
  "('blk, 'img) env \<Rightarrow> nat \<Rightarrow> archive list \<Rightarrow> ('blk, 'img) state \<Rightarrow>
   ctl \<times> ('blk, 'img) state" where
  "archive_loop env archive_index [] s = (Continue, s)"
| "archive_loop env archive_index (a # rest) s =
     (case archive_step env archive_index a s of
        (Continue, s') \<Rightarrow> archive_loop env (Suc archive_index) rest s'
      | (Break, s') \<Rightarrow> (Break, s')
      | (Raise e, s') \<Rightarrow> (Raise e, s'))"

section \<open>The whole of \<^verbatim>\<open>batch_process\<close>\<close>

text \<open>
  The run starts with empty containers; \<open>heap\<close> is what the references not yet allocated
  hold, which no step reads. The result is the final state and the message of the
  exception that left \<^verbatim>\<open>batch_process\<close>, if one did.
\<close>

definition init_state :: "('blk, 'img) store \<Rightarrow> ('blk, 'img) state" where
  "init_state heap =
     \<lparr>store = heap, next_ref = 0, translation_batches = [], image_batches_data = [],
      trace = [], polls = 0, current_worker = True\<rparr>"

definition post_processing ::
  "('blk, 'img) env \<Rightarrow> ('blk, 'img) state \<Rightarrow> ctl \<times> ('blk, 'img) state" where
  "post_processing env s =
     (let (cancelled, s1) = check_cancel env s
      in if cancelled then (Continue, s1\<lparr>current_worker := False\<rparr>)
         else post_loop env (image_batches_data s1) s1)"

definition archiving ::
  "('blk, 'img) env \<Rightarrow> ('blk, 'img) state \<Rightarrow> ctl \<times> ('blk, 'img) state" where
  "archiving env s =
     (let (cancelled, s1) = check_cancel env s;
          s2 = (if cancelled then s1\<lparr>current_worker := False\<rparr> else s1)
      in archive_loop env 0 (archive_info env) s2)"

definition batch_process ::
  "('blk, 'img) env \<Rightarrow> ('blk, 'img) store \<Rightarrow> string option \<times> ('blk, 'img) state" where
  "batch_process env heap =
     (case main_loop env 0 (image_files env) (init_state heap) of
        (Raise e, s1) \<Rightarrow> (Some e, s1)
      | (_, s1) \<Rightarrow>
          (case post_processing env s1 of
             (Raise e, s2) \<Rightarrow> (Some e, s2)
           | (_, s2) \<Rightarrow>
               (case archiving env s2 of
                  (Raise e, s3) \<Rightarrow> (Some e, s3)
                | (_, s3) \<Rightarrow> (None, s3))))"

section \<open>Reading a trace\<close>

text \<open>
  The file that \<^verbatim>\<open>skip_save\<close> and the renderer write for an image: under
  \<^verbatim>\<open>translated_images\<close>, named with the \<^verbatim>\<open>_translated\<close> suffix.
\<close>

definition translated_file :: "('blk, 'img) env \<Rightarrow> string \<Rightarrow> path" where
  "translated_file env ipath =
     run_dir (directory_of env ipath) (now_timestamp env)
       @ [''translated_images'', archive_bname_of env ipath,
          path_splitext_basename env ipath @ ''_translated'' @ path_ext env ipath]"

fun is_translate_call :: "('blk, 'img) event \<Rightarrow> bool" where
  "is_translate_call (TranslateCall t blks img ctx) = True"
| "is_translate_call e = False"

fun is_translated_output :: "('blk, 'img) event \<Rightarrow> bool" where
  "is_translated_output (ImWrite f img) = True"
| "is_translated_output (RenderSave f img blks) = True"
| "is_translated_output e = False"

fun is_make_archive :: "('blk, 'img) event \<Rightarrow> bool" where
  "is_make_archive (MakeArchive ext input_dir output_dir bname) = True"
| "is_make_archive e = False"


section \<open>Invariants of a run\<close>

text \<open>
  A trace saves its skips when every skip event for an image comes with a write of the
  image's decoded original to the image's file under \<^verbatim>\<open>translated_images\<close>.
\<close>

definition skips_saved :: "('blk, 'img) env \<Rightarrow> ('blk, 'img) event list \<Rightarrow> bool" where
  "skips_saved env tr \<longleftrightarrow>
     (\<forall>ipath stage msg. ImageSkipped ipath stage msg \<in> set tr \<longrightarrow>
        (\<exists>img. imread env ipath = Some img \<and>
               ImWrite (translated_file env ipath) img \<in> set tr))"

text \<open>
  A record belongs to a path when its fields are the ones line 241-248 compute for that
  path; the flush changes none of them.
\<close>

definition record_of ::
  "('blk, 'img) env \<Rightarrow> string \<Rightarrow> ('blk, 'img) image_data \<Rightarrow> bool" where
  "record_of env ipath d \<longleftrightarrow>
     image_path d = ipath \<and> imread env ipath = Some (image d) \<and>
     directory d = directory_of env ipath \<and> timestamp d = now_timestamp env \<and>
     base_name d = path_splitext_basename env ipath \<and> extension d = path_ext env ipath \<and>
     archive_bname d = archive_bname_of env ipath"

definition entries_ok ::
  "('blk, 'img) env \<Rightarrow> (string \<times> ref) list \<Rightarrow> ('blk, 'img) state \<Rightarrow> bool" where
  "entries_ok env entries s \<longleftrightarrow>
     (\<forall>entry \<in> set entries.
        snd entry < next_ref s \<and> record_of env (fst entry) (store s (snd entry)))"

definition run_ok :: "('blk, 'img) env \<Rightarrow> ('blk, 'img) state \<Rightarrow> bool" where
  "run_ok env s \<longleftrightarrow>
     skips_saved env (trace s) \<and> entries_ok env (image_batches_data s) s"


section \<open>Python values and operators used by the GPT engines\<close>

text \<open>
  \<^verbatim>\<open>response.json()\<close> yields a decoded JSON value, and the code applies \<^verbatim>\<open>in\<close>,
  indexing, \<^verbatim>\<open>len\<close>, \<^verbatim>\<open>.get\<close> and \<^verbatim>\<open>.lower()\<close> to it without checking what kind of
  value it is. The values are a datatype (an object is its list of distinct keys with
  their values, as the decoded dict holds them), and each operator returns the Python
  exception it raises on a value of the wrong kind.
\<close>

datatype json =
    JNull
  | JBool bool
  | JNum rat
  | JStr string
  | JArr "json list"
  | JObj "(string \<times> json) list"

datatype exn =
    RuntimeError string
  | ValueError string
  | TypeError
  | AttributeError
  | KeyError
  | IndexError
  | OtherError string

text \<open>Sequencing: an exception of the first computation ends the whole.\<close>

definition and_then :: "exn + 'a \<Rightarrow> ('a \<Rightarrow> exn + 'b) \<Rightarrow> exn + 'b" where
  "and_then r f = (case r of Inl e \<Rightarrow> Inl e | Inr v \<Rightarrow> f v)"

text \<open>\<^verbatim>\<open>sub in s\<close> on strings: \<open>sub\<close> occurs in \<open>s\<close> as a contiguous run.\<close>

fun py_contains :: "string \<Rightarrow> string \<Rightarrow> bool" where
  "py_contains sub [] = (sub = [])"
| "py_contains sub (c # cs) = (take (length sub) (c # cs) = sub \<or> py_contains sub cs)"

text \<open>\<^verbatim>\<open>key in v\<close> for a string \<open>key\<close>: a key of a dict, an element of a list, a substring
  of a string; \<^verbatim>\<open>TypeError\<close> on \<^verbatim>\<open>None\<close>, a number or a boolean.\<close>

definition py_in :: "string \<Rightarrow> json \<Rightarrow> exn + bool" where
  "py_in key v =
     (case v of
        JObj kvs \<Rightarrow> Inr (key \<in> set (map fst kvs))
      | JArr xs \<Rightarrow> Inr (JStr key \<in> set xs)
      | JStr s \<Rightarrow> Inr (py_contains key s)
      | _ \<Rightarrow> Inl TypeError)"

text \<open>\<^verbatim>\<open>v[key]\<close> for a string \<open>key\<close>.\<close>

definition py_getitem :: "json \<Rightarrow> string \<Rightarrow> exn + json" where
  "py_getitem v key =
     (case v of
        JObj kvs \<Rightarrow> (case map_of kvs key of None \<Rightarrow> Inl KeyError | Some x \<Rightarrow> Inr x)
      | _ \<Rightarrow> Inl TypeError)"

text \<open>\<^verbatim>\<open>v[0]\<close>: the keys of a decoded JSON object are strings, so a dict has no key 0.\<close>

definition py_first :: "json \<Rightarrow> exn + json" where
  "py_first v =
     (case v of
        JArr xs \<Rightarrow> (case xs of [] \<Rightarrow> Inl IndexError | x # _ \<Rightarrow> Inr x)
      | JStr s \<Rightarrow> (case s of [] \<Rightarrow> Inl IndexError | c # _ \<Rightarrow> Inr (JStr [c]))
      | JObj kvs \<Rightarrow> Inl KeyError
      | _ \<Rightarrow> Inl TypeError)"

definition py_len :: "json \<Rightarrow> exn + nat" where
  "py_len v =
     (case v of
        JObj kvs \<Rightarrow> Inr (length kvs)
      | JArr xs \<Rightarrow> Inr (length xs)
      | JStr s \<Rightarrow> Inr (length s)
      | _ \<Rightarrow> Inl TypeError)"

text \<open>\<^verbatim>\<open>v.get(key, dflt)\<close>: only a dict has the method.\<close>

definition py_get :: "json \<Rightarrow> string \<Rightarrow> json \<Rightarrow> exn + json" where
  "py_get v key dflt =
     (case v of
        JObj kvs \<Rightarrow> (case map_of kvs key of None \<Rightarrow> Inr dflt | Some x \<Rightarrow> Inr x)
      | _ \<Rightarrow> Inl AttributeError)"

text \<open>\<^verbatim>\<open>v == k\<close> for an integer \<open>k\<close>: \<^verbatim>\<open>True\<close> and \<^verbatim>\<open>False\<close> compare as 1 and 0.\<close>

definition py_eq_int :: "json \<Rightarrow> int \<Rightarrow> bool" where
  "py_eq_int v k =
     (case v of
        JNum n \<Rightarrow> n = of_int k
      | JBool b \<Rightarrow> (if b then 1 else 0) = k
      | _ \<Rightarrow> False)"

text \<open>
  Three built-ins are parameters: \<^verbatim>\<open>str\<close> of a value that is not a string,
  \<^verbatim>\<open>json.dumps\<close>, and \<^verbatim>\<open>str.lower\<close>.
\<close>

record builtins =
  str_of_value :: "json \<Rightarrow> string"
  json_dumps :: "json \<Rightarrow> string"
  lowercase :: "string \<Rightarrow> string"

definition py_str :: "builtins \<Rightarrow> json \<Rightarrow> string" where
  "py_str py v = (case v of JStr s \<Rightarrow> s | _ \<Rightarrow> str_of_value py v)"

definition py_lower :: "builtins \<Rightarrow> json \<Rightarrow> exn + string" where
  "py_lower py v = (case v of JStr s \<Rightarrow> Inr (lowercase py s) | _ \<Rightarrow> Inl AttributeError)"

text \<open>
  What \<^verbatim>\<open>requests.post\<close> gives: an exception of the request, or a response with its
  status code, the result of \<^verbatim>\<open>response.json()\<close> (\<open>Inl\<close> of the message when the body is
  not JSON) and the text of the \<^verbatim>\<open>HTTPError\<close> that \<^verbatim>\<open>raise_for_status\<close> raises for it.
\<close>

record http_response =
  status_code :: nat
  json_body :: "string + json"
  http_error :: string

datatype http_result = RequestFailed string | Response http_response

section \<open>Reading an API response (gpt.py and gpt_ocr.py)\<close>

text \<open>
  The message built from an error object: gpt.py lines 116-126 and 158-167, gpt_ocr.py
  lines 143-152. The three places differ only in the defaults of the two \<^verbatim>\<open>.get\<close> calls.
\<close>

definition api_error_message :: "builtins \<Rightarrow> json \<Rightarrow> string \<Rightarrow> json \<Rightarrow> exn + string" where
  "api_error_message py error_info default_message default_code =
     and_then (py_get error_info ''message'' (JStr default_message)) (\<lambda>error_message.
     and_then (py_get error_info ''code'' default_code) (\<lambda>error_code.
     and_then (if py_eq_int error_code 429 then Inr True
               else and_then (py_lower py error_message)
                      (\<lambda>lowered. Inr (py_contains ''rate limit'' lowered))) (\<lambda>rate_limited.
       if rate_limited then
         and_then (py_get error_info ''metadata'' (JObj [])) (\<lambda>metadata.
         and_then (py_get metadata ''provider_name'' (JStr ''API provider'')) (\<lambda>provider.
           Inr (''Rate limit exceeded for '' @ py_str py provider @ '': ''
                  @ py_str py error_message)))
       else Inr (''API error ('' @ py_str py error_code @ ''): ''
                   @ py_str py error_message))))"

text \<open>
  The \<^verbatim>\<open>choices\<close> branch (gpt.py lines 129-137, gpt_ocr.py lines 158-164): \<open>Some\<close> of
  the returned value, or \<open>None\<close> when the code falls through to the next test.
\<close>

definition choices_text :: "json \<Rightarrow> exn + json option" where
  "choices_text response_data =
     and_then (py_in ''choices'' response_data) (\<lambda>has_choices.
       if \<not> has_choices then Inr None
       else
         and_then (py_getitem response_data ''choices'') (\<lambda>choices.
         and_then (py_len choices) (\<lambda>n.
           if \<not> 0 < n then Inr None
           else
             and_then (py_first choices) (\<lambda>choice.
             and_then (and_then (py_in ''message'' choice) (\<lambda>has_message.
                         if has_message
                         then and_then (py_getitem choice ''message'') (py_in ''content'')
                         else Inr False)) (\<lambda>has_content.
               if has_content then
                 and_then (py_getitem choice ''message'') (\<lambda>message.
                 and_then (py_getitem message ''content'') (\<lambda>content. Inr (Some content)))
               else
                 and_then (py_in ''text'' choice) (\<lambda>has_text.
                   if has_text
                   then and_then (py_getitem choice ''text'') (\<lambda>t. Inr (Some t))
                   else Inr None))))))"

text \<open>The \<^verbatim>\<open>content\<close> and \<^verbatim>\<open>response\<close> tests that follow in both files.\<close>

definition other_formats :: "json \<Rightarrow> exn + json option" where
  "other_formats response_data =
     and_then (py_in ''content'' response_data) (\<lambda>has_content.
       if has_content
       then and_then (py_getitem response_data ''content'') (\<lambda>c. Inr (Some c))
       else
         and_then (py_in ''response'' response_data) (\<lambda>has_response.
           if has_response
           then and_then (py_getitem response_data ''response'') (\<lambda>r. Inr (Some r))
           else Inr None))"


section \<open>\<^verbatim>\<open>GPTTranslation._make_api_request\<close> (gpt.py, lines 94-172)\<close>





section \<open>\<^verbatim>\<open>GPTOCR\<close> (gpt_ocr.py)\<close>

text \<open>
  A \<^verbatim>\<open>TextBlock\<close> as far as the OCR engine uses it. \<^verbatim>\<open>blk.text\<close> (the field
  \<open>blk_text\<close>) receives whatever \<^verbatim>\<open>_get_gpt_ocr\<close> returns, which is the value found in
  the response.
\<close>

type_synonym box = "int \<times> int \<times> int \<times> int"

record textblock =
  xyxy :: box
  bubble_xyxy :: "box option"
  blk_text :: json

text \<open>
  The engine's fields and what it calls: \<^verbatim>\<open>adjust_text_line_coordinates\<close>, the shape
  of the image (\<^verbatim>\<open>img.shape[0]\<close>, \<^verbatim>\<open>img.shape[1]\<close>), the crop with \<^verbatim>\<open>cv2.imencode\<close> and
  \<^verbatim>\<open>base64\<close> of lines 63-65, and the HTTP exchange for the \<open>i\<close>-th block of the list.
  \<^verbatim>\<open>not self.api_key\<close> holds for \<^verbatim>\<open>None\<close> and for the empty string.
\<close>

record 'img gpt_ocr =
  ocr_api_key :: "string option"
  expansion_percentage :: int
  adjust_text_line_coordinates :: "box \<Rightarrow> int \<Rightarrow> int \<Rightarrow> 'img \<Rightarrow> exn + box"
  img_shape :: "'img \<Rightarrow> int \<times> int"
  encode_crop :: "'img \<Rightarrow> box \<Rightarrow> exn + string"
  ocr_post :: "nat \<Rightarrow> string \<Rightarrow> http_result"
  ocr_builtins :: builtins

text \<open>\<^verbatim>\<open>_extract_text_from_response\<close> (lines 131-176).\<close>

definition extract_text_from_response :: "builtins \<Rightarrow> json \<Rightarrow> exn + json" where
  "extract_text_from_response py response_data =
     and_then (py_in ''error'' response_data) (\<lambda>has_error.
       if has_error then
         and_then (py_getitem response_data ''error'') (\<lambda>error_info.
         and_then (api_error_message py error_info ''Unknown API error'' (JStr ''unknown''))
           (\<lambda>error_msg. Inr (JStr (''[OCR Error: '' @ error_msg @ '']''))))
       else
         and_then (choices_text response_data) (\<lambda>chosen.
           case chosen of
             Some v \<Rightarrow> Inr v
           | None \<Rightarrow>
               and_then (other_formats response_data) (\<lambda>other.
                 case other of
                   Some v \<Rightarrow> Inr v
                 | None \<Rightarrow> Inr (JStr ''[OCR Error: Unrecognized API response format]''))))"

text \<open>\<^verbatim>\<open>text.replace('\n', ' ')\<close>: only a string has the method.\<close>

definition replace_newlines :: "json \<Rightarrow> exn + json" where
  "replace_newlines v =
     (case v of
        JStr s \<Rightarrow> Inr (JStr (map (\<lambda>c. if c = CHR 0x0A then CHR '' '' else c) s))
      | _ \<Rightarrow> Inl AttributeError)"

text \<open>
  \<^verbatim>\<open>_get_gpt_ocr\<close> (lines 75-129): the missing key raises before the \<^verbatim>\<open>try\<close>; inside
  it every exception is caught (line 127) and the empty string returned.
\<close>

definition get_gpt_ocr :: "'img gpt_ocr \<Rightarrow> nat \<Rightarrow> string \<Rightarrow> exn + json" where
  "get_gpt_ocr self i base64_image =
     (if ocr_api_key self = None \<or> ocr_api_key self = Some []
      then Inl (ValueError ''API key not initialized. Call initialize() first.'')
      else
        Inr (case (case ocr_post self i base64_image of
                     RequestFailed m \<Rightarrow> Inl (OtherError m)
                   | Response resp \<Rightarrow>
                       if status_code resp = 200 then
                         (case json_body resp of
                            Inl m \<Rightarrow> Inl (OtherError m)
                          | Inr response_json \<Rightarrow>
                              and_then (extract_text_from_response (ocr_builtins self)
                                          response_json) (\<lambda>t.
                              and_then (py_in [CHR 0x0A] t) (\<lambda>has_newline.
                                if has_newline then replace_newlines t else Inr t)))
                       else Inr (JStr [])) of
               Inl e \<Rightarrow> JStr []
             | Inr t \<Rightarrow> t))"

text \<open>The coordinate test of line 61.\<close>

definition valid_box :: "'img gpt_ocr \<Rightarrow> 'img \<Rightarrow> box \<Rightarrow> bool" where
  "valid_box self img b =
     (case b of (x1, y1, x2, y2) \<Rightarrow>
        x1 < x2 \<and> y1 < y2 \<and> 0 \<le> x1 \<and> 0 \<le> y1 \<and>
        x2 \<le> snd (img_shape self img) \<and> y2 \<le> fst (img_shape self img))"

text \<open>Lines 50-58: the box of a block.\<close>

definition block_box :: "'img gpt_ocr \<Rightarrow> 'img \<Rightarrow> textblock \<Rightarrow> exn + box" where
  "block_box self img blk =
     (case bubble_xyxy blk of
        Some b \<Rightarrow> Inr b
      | None \<Rightarrow>
          adjust_text_line_coordinates self (xyxy blk) (expansion_percentage self)
            (expansion_percentage self) img)"

text \<open>
  The body of the loop of line 47 for the \<open>i\<close>-th block: the \<^verbatim>\<open>try\<close> of lines 48-68 and
  the \<^verbatim>\<open>except Exception\<close> of lines 69-71.
\<close>

definition process_block :: "'img gpt_ocr \<Rightarrow> 'img \<Rightarrow> nat \<Rightarrow> textblock \<Rightarrow> textblock" where
  "process_block self img i blk =
     (case and_then (block_box self img blk) (\<lambda>b.
             if valid_box self img b then
               and_then (encode_crop self img b) (\<lambda>cv2_to_gpt.
               and_then (get_gpt_ocr self i cv2_to_gpt) (\<lambda>t. Inr (blk\<lparr>blk_text := t\<rparr>)))
             else Inr blk) of
        Inl e \<Rightarrow> blk\<lparr>blk_text := JStr []\<rparr>
      | Inr blk' \<Rightarrow> blk')"

text \<open>\<^verbatim>\<open>GPTOCR.process_image\<close> (lines 36-73): every block in turn, and the list is returned.\<close>

definition process_image :: "'img gpt_ocr \<Rightarrow> 'img \<Rightarrow> textblock list \<Rightarrow> textblock list" where
  "process_image self img blks =
     map (\<lambda>(i, blk). process_block self img i blk) (enumerate 0 blks)"


section \<open>Concrete inputs\<close>

text \<open>
  Small inputs on which the model is run: blocks and images are numbers. The sample
  collaborators succeed on everything; a scenario overrides the one that fails.
\<close>

definition sample_record :: "nat list \<Rightarrow> (nat, nat) image_data" where
  "sample_record blks =
     \<lparr>image_path = ''p.png'', original_index = 0, image = 7, blk_list = blks,
      source_lang = ''Japanese'', target_lang = ''English'', base_name = ''p'',
      extension = ''.png'', archive_bname = [], timestamp = ''ts'', directory = ''dir'',
      trg_lng_cd = Some ''en'', inpaint_input_img_rgb = 8, skipped = False,
      error_message = []\<rparr>"

definition sample_store :: "(nat, nat) store" where
  "sample_store r = sample_record (if r = 0 then [1, 2] else [3])"

definition sample_env :: "(nat, nat) env" where
  "sample_env =
     \<lparr>image_files = [''a.png'', ''b.png''],
      image_states = (\<lambda>p. (''Japanese'', ''English'')),
      lang_mapping = (\<lambda>l. Some l),
      get_language_code = (\<lambda>l. Some ''en''),
      path_splitext_basename = takeWhile (\<lambda>c. c \<noteq> CHR ''.''),
      path_ext = dropWhile (\<lambda>c. c \<noteq> CHR ''.''),
      path_dirname = (\<lambda>p. ''dir''),
      str_lower = (\<lambda>x. x),
      archive_info = [],
      now_timestamp = ''ts'',
      extra_context = [],
      export_inpainted_image = False,
      export_raw_text = False,
      export_translated_text = False,
      save_as = (\<lambda>ext. Some ''zip''),
      imread = (\<lambda>p. Some 7),
      detect = (\<lambda>img. Inr [1, 2]),
      ocr_process = (\<lambda>lang img blks. Inr blks),
      sort_blk_list = (\<lambda>blks rtl. Inr blks),
      inpaint = (\<lambda>img blks. Inr 8),
      cvt_bgr2rgb = (\<lambda>img. 9),
      translate = (\<lambda>t blks img ctx. Inr (map (\<lambda>b. b + 100) blks)),
      text_json_error = (\<lambda>blks. None),
      make_archive = (\<lambda>ext input_dir output_dir bname. None),
      is_cancelled = (\<lambda>n. False)\<rparr>"

definition sample_state :: "(nat, nat) state" where
  "sample_state = (init_state sample_store)\<lparr>next_ref := 2, translation_batches := [0, 1]\<rparr>"

definition failing_translate_env :: "(nat, nat) env" where
  "failing_translate_env = sample_env\<lparr>translate := (\<lambda>t blks img ctx. Inl ''boom'')\<rparr>"

text \<open>Two images; the second one decodes (to image 5) and has no text on it.\<close>

definition trailing_skip_env :: "(nat, nat) env" where
  "trailing_skip_env =
     sample_env\<lparr>imread := (\<lambda>p. if p = ''b.png'' then Some 5 else Some 7),
       detect := (\<lambda>img. if img = 5 then Inr [] else Inr [1, 2])\<rparr>"


text \<open>No image and two archives; \<open>make\<close> fails on the first one.\<close>

definition two_archives :: "archive list" where
  "two_archives =
     [\<lparr>archive_path = ''one.cbz'', extracted_images = []\<rparr>,
      \<lparr>archive_path = ''two.cbz'', extracted_images = []\<rparr>]"

definition failing_make_env :: "(nat, nat) env" where
  "failing_make_env =
     sample_env\<lparr>image_files := [], archive_info := two_archives,
       make_archive := (\<lambda>ext input_dir output_dir bname.
          if bname = ''one'' then Some ''disk full'' else None)\<rparr>"




text \<open>Inputs for the GPT engines.\<close>

definition sample_py :: builtins where
  "sample_py = \<lparr>str_of_value = (\<lambda>v. ''?''), json_dumps = (\<lambda>v. ''{}''), lowercase = (\<lambda>s. s)\<rparr>"

definition ok_response :: "json \<Rightarrow> http_result" where
  "ok_response body = Response \<lparr>status_code = 200, json_body = Inr body, http_error = []\<rparr>"

definition hello_body :: json where
  "hello_body =
     JObj [(''choices'', JArr [JObj [(''message'', JObj [(''content'', JStr ''hello'')])]])]"



text \<open>
  An OCR engine on a 100 by 100 image: the coordinate adjustment fails on a negative
  left edge, the encoding fails on the box with left edge 1, the request of block 3 fails
  and that of block 4 has status 500; any other request is answered with \<open>hello_body\<close>.
\<close>

definition sample_ocr :: "nat gpt_ocr" where
  "sample_ocr =
     \<lparr>ocr_api_key = Some ''sk'',
      expansion_percentage = 0,
      adjust_text_line_coordinates =
        (\<lambda>b w h img. if fst b < 0 then Inl (OtherError ''bad box'') else Inr b),
      img_shape = (\<lambda>img. (100, 100)),
      encode_crop = (\<lambda>img b. if fst b = 1 then Inl (OtherError ''encode'') else Inr ''AAAA''),
      ocr_post =
        (\<lambda>i image.
           if i = 3 then RequestFailed ''timeout''
           else if i = 4
             then Response \<lparr>status_code = 500, json_body = Inl ''no JSON'', http_error = ''500''\<rparr>
           else ok_response hello_body),
      ocr_builtins = sample_py\<rparr>"

definition old_block :: "box \<Rightarrow> box option \<Rightarrow> textblock" where
  "old_block b bubble = \<lparr>xyxy = b, bubble_xyxy = bubble, blk_text = JStr ''old''\<rparr>"

definition sample_blocks :: "textblock list" where
  "sample_blocks =
     [old_block (- 1, 0, 5, 5) None,
      old_block (0, 0, 0, 0) (Some (1, 0, 5, 5)),
      old_block (0, 0, 0, 0) (Some (90, 10, 120, 40)),
      old_block (2, 0, 5, 5) None,
      old_block (2, 0, 5, 5) None,
      old_block (2, 0, 5, 5) None]"

section \<open>Running the model\<close>

text \<open>The equations that unfold a run of the model on a concrete input.\<close>

lemmas run_defs =
  batch_process_def image_step_def stage_ocr_def ocr_and_sort_def
  stage_inpaint_def stage_translate_def flush_batch_def post_processing_def
  finalize_image_def archiving_def archive_step_def init_state_def
  check_cancel_def emit_def skip_save_def log_skipped_image_def run_dir_def
  directory_of_def archive_bname_of_def source_lang_of_def target_lang_of_def
  trg_lng_cd_of_def batch_size_def flush_init_def translated_file_def Let_def

section \<open>The ranges of a flush partition the combined list\<close>

lemma contiguous_le: "contiguous k rs n \<Longrightarrow> k \<le> n"
  by (induction k rs n rule: contiguous.induct) auto

lemma contiguous_bounds:
  "contiguous k rs n \<Longrightarrow> (s, e) \<in> set rs \<Longrightarrow> k \<le> s \<and> s \<le> e \<and> e \<le> n"
proof (induction k rs n rule: contiguous.induct)
  case (1 k n)
  then show ?case by simp
next
  case (2 k s' e' rs n)
  from "2.prems"(1) have hd: "s' = k" "s' \<le> e'" and tl: "contiguous e' rs n"
    by simp_all
  show ?case
  proof (cases "(s, e) = (s', e')")
    case True
    with hd contiguous_le [OF tl] show ?thesis by simp
  next
    case False
    with "2.prems"(2) have "(s, e) \<in> set rs" by auto
    with "2.IH" tl have "e' \<le> s \<and> s \<le> e \<and> e \<le> n" by blast
    with hd show ?thesis by simp
  qed
qed

lemma contiguous_snoc:
  "contiguous k rs n \<Longrightarrow> n \<le> m \<Longrightarrow> contiguous k (rs @ [(n, m)]) m"
  by (induction k rs n rule: contiguous.induct) auto

lemma dict_set_fresh: "k \<notin> fst ` set m \<Longrightarrow> dict_set k v m = m @ [(k, v)]"
  by (induction m) auto

lemma dict_set_present_keys: "k \<in> fst ` set m \<Longrightarrow> map fst (dict_set k v m) = map fst m"
  by (induction m) force+

lemma dict_set_entries: "set (dict_set k v m) \<subseteq> insert (k, v) (set m)"
proof (induction m)
  case Nil
  show ?case by simp
next
  case (Cons p m)
  obtain k' v' where p: "p = (k', v')" by (cases p)
  show ?case
  proof (cases "k = k'")
    case True
    with p show ?thesis by auto
  next
    case False
    with p Cons.IH show ?thesis by auto
  qed
qed

lemma dict_set_present_sum:
  "k \<in> fst ` set m \<Longrightarrow>
   sum_list (map range_len (dict_set k v m)) = sum_list (map range_len m)"
proof -
  assume "k \<in> fst ` set m"
  then have keys: "map fst (dict_set k v m) = map fst m"
    by (rule dict_set_present_keys)
  have "map range_len xs = map (\<lambda>r. snd r - fst r) (map fst xs)" for xs :: "((nat \<times> nat) \<times> ref) list"
    by (simp add: range_len_def)
  with keys show ?thesis by metis
qed

lemma flush_inv_step:
  assumes "flush_inv st a"
  shows "flush_inv st
           \<lparr>combined_blk_list = combined_blk_list a @ blk_list (st d),
            batch_indices_map =
              dict_set (current_combined_index a,
                        current_combined_index a + length (blk_list (st d))) d
                (batch_indices_map a),
            current_combined_index = current_combined_index a + length (blk_list (st d)),
            translator = t\<rparr>"
proof -
  let ?c = "current_combined_index a"
  let ?n = "length (blk_list (st d))"
  let ?m = "batch_indices_map a"
  from assms have ch: "contiguous 0 (map fst ?m) ?c"
    and len: "?c = length (combined_blk_list a)"
    and ent: "list_all (\<lambda>entry. range_len entry = length (blk_list (st (snd entry)))) ?m"
    and sm: "sum_list (map range_len ?m) = ?c"
    unfolding flush_inv_def by blast+
  show ?thesis
  proof (cases "(?c, ?c + ?n) \<in> fst ` set ?m")
    case True
    then have "(?c, ?c + ?n) \<in> set (map fst ?m)" by simp
    with ch have "?c + ?n \<le> ?c" using contiguous_bounds by blast
    then have n0: "?n = 0" by simp
    have keys: "map fst (dict_set (?c, ?c + ?n) d ?m) = map fst ?m"
      using True by (rule dict_set_present_keys)
    have "list_all (\<lambda>entry. range_len entry = length (blk_list (st (snd entry))))
            (dict_set (?c, ?c + ?n) d ?m)"
      using ent dict_set_entries [of "(?c, ?c + ?n)" d ?m] n0
      by (auto simp: list_all_iff range_len_def)
    moreover have "sum_list (map range_len (dict_set (?c, ?c + ?n) d ?m)) = ?c + ?n"
      using dict_set_present_sum [OF True] sm n0 by simp
    ultimately show ?thesis
      using ch len keys n0 by (simp add: flush_inv_def)
  next
    case False
    then have fresh: "dict_set (?c, ?c + ?n) d ?m = ?m @ [((?c, ?c + ?n), d)]"
      by (rule dict_set_fresh)
    have "contiguous 0 (map fst ?m @ [(?c, ?c + ?n)]) (?c + ?n)"
      using ch by (rule contiguous_snoc) simp
    then show ?thesis
      using len ent sm fresh by (simp add: flush_inv_def range_len_def)
  qed
qed

lemma accumulate_inv: "flush_inv st a \<Longrightarrow> flush_inv st (accumulate st batch a)"
proof (induction batch arbitrary: a)
  case Nil
  then show ?case by simp
next
  case (Cons d batch)
  show ?case
    unfolding accumulate.simps Let_def
    by (rule Cons.IH) (rule flush_inv_step [OF Cons.prems])
qed

lemma accumulate_combined:
  "combined_blk_list (accumulate st batch a) =
     combined_blk_list a @ concat (map (\<lambda>d. blk_list (st d)) batch)"
  by (induction batch arbitrary: a) (simp_all add: Let_def)

lemma accumulate_records:
  assumes "\<forall>d \<in> set batch. blk_list (st d) \<noteq> []"
    and "contiguous 0 (map fst (batch_indices_map a)) (current_combined_index a)"
  shows "map snd (batch_indices_map (accumulate st batch a)) =
           map snd (batch_indices_map a) @ batch"
  using assms
proof (induction batch arbitrary: a)
  case Nil
  then show ?case by simp
next
  case (Cons d batch)
  let ?c = "current_combined_index a"
  let ?n = "length (blk_list (st d))"
  let ?m = "batch_indices_map a"
  from Cons.prems have pos: "0 < ?n" by simp
  have "(?c, ?c + ?n) \<notin> fst ` set ?m"
  proof
    assume "(?c, ?c + ?n) \<in> fst ` set ?m"
    then have "(?c, ?c + ?n) \<in> set (map fst ?m)" by simp
    with Cons.prems(2) have "?c + ?n \<le> ?c" using contiguous_bounds by blast
    with pos show False by simp
  qed
  then have fresh: "dict_set (?c, ?c + ?n) d ?m = ?m @ [((?c, ?c + ?n), d)]"
    by (rule dict_set_fresh)
  have ch: "contiguous 0 (map fst ?m @ [(?c, ?c + ?n)]) (?c + ?n)"
    using Cons.prems(2) by (rule contiguous_snoc) simp
  show ?case
    unfolding accumulate.simps Let_def
    apply (subst Cons.IH)
    using Cons.prems(1) ch fresh by simp_all
qed

text \<open>
  Claim C1. In a flush, the ranges entered in \<^verbatim>\<open>batch_indices_map\<close> start at 0, each starts
  where the one before ends, and the last ends at \<^verbatim>\<open>len(combined_blk_list)\<close>; the combined
  list is the concatenation of the records' block lists in batch order; the length of every
  range is the length of its record's \<^verbatim>\<open>blk_list\<close> when the batch is accumulated; the
  lengths add up to the length of the combined list; and when no record of the batch has an
  empty block list (line 194 lets none through from detection), the ranges belong to the
  records of the batch one to one, in the order the records were appended.
\<close>

theorem batch_ranges_partition:
  "contiguous 0 (map fst (batch_indices_map (accumulate st batch flush_init)))
       (length (combined_blk_list (accumulate st batch flush_init))) \<and>
   combined_blk_list (accumulate st batch flush_init) =
       concat (map (\<lambda>d. blk_list (st d)) batch) \<and>
   list_all (\<lambda>entry. range_len entry = length (blk_list (st (snd entry))))
       (batch_indices_map (accumulate st batch flush_init)) \<and>
   sum_list (map range_len (batch_indices_map (accumulate st batch flush_init))) =
       length (combined_blk_list (accumulate st batch flush_init)) \<and>
   ((\<forall>d \<in> set batch. blk_list (st d) \<noteq> []) \<longrightarrow>
       map snd (batch_indices_map (accumulate st batch flush_init)) = batch)"
proof -
  have "flush_inv st (flush_init :: 'a flush_acc)"
    by (simp add: flush_inv_def flush_init_def)
  then have "flush_inv st (accumulate st batch flush_init)"
    by (rule accumulate_inv)
  moreover have "combined_blk_list (accumulate st batch flush_init) =
       concat (map (\<lambda>d. blk_list (st d)) batch)"
    by (simp add: accumulate_combined flush_init_def)
  moreover have "(\<forall>d \<in> set batch. blk_list (st d) \<noteq> []) \<longrightarrow>
       map snd (batch_indices_map (accumulate st batch flush_init)) = batch"
    using accumulate_records [of batch st flush_init] by (simp add: flush_init_def)
  ultimately show ?thesis
    unfolding flush_inv_def by metis
qed

theorem batch_ranges_partition_witness:
  "blk_list (sample_store 0) \<noteq> [] \<and> blk_list (sample_store 1) \<noteq> [] \<and>
   map snd (batch_indices_map (accumulate sample_store [0, 1] flush_init)) = [0, 1] \<and>
   map fst (batch_indices_map (accumulate sample_store [0, 1] flush_init)) = [(0, 2), (2, 3)]"
proof -
  have nonempty: "\<forall>d \<in> set [0, 1]. blk_list (sample_store d) \<noteq> []"
    by (simp add: sample_store_def sample_record_def)
  have "map snd (batch_indices_map (accumulate sample_store [0, 1] flush_init)) = [0, 1]"
    using batch_ranges_partition [of sample_store "[0, 1]"] nonempty by blast
  moreover have
    "map fst (batch_indices_map (accumulate sample_store [0, 1] flush_init)) = [(0, 2), (2, 3)]"
    by (simp add: sample_store_def sample_record_def flush_init_def Let_def)
  ultimately show ?thesis using nonempty by simp
qed

section \<open>A failed translation call marks its batch and no other record\<close>

lemma mark_skipped_other: "r \<notin> set batch \<Longrightarrow> mark_skipped msg batch st r = st r"
  by (induction batch arbitrary: st) auto

lemma mark_skipped_member:
  "r \<in> set batch \<Longrightarrow>
   mark_skipped msg batch st r = (st r)\<lparr>skipped := True, error_message := msg\<rparr>"
proof (induction batch arbitrary: st)
  case Nil
  then show ?case by simp
next
  case (Cons d batch)
  let ?st = "st(d := (st d)\<lparr>skipped := True, error_message := msg\<rparr>)"
  have step: "mark_skipped msg (d # batch) st r = mark_skipped msg batch ?st r"
    by simp
  show ?case
  proof (cases "r \<in> set batch")
    case True
    then have "mark_skipped msg batch ?st r = (?st r)\<lparr>skipped := True, error_message := msg\<rparr>"
      by (rule Cons.IH)
    also have "\<dots> = (st r)\<lparr>skipped := True, error_message := msg\<rparr>"
      by (cases "r = d") simp_all
    finally show ?thesis using step by simp
  next
    case False
    with Cons.prems have "r = d" by simp
    with False have "mark_skipped msg batch ?st r = ?st r"
      using mark_skipped_other [of d batch msg ?st] by simp
    with \<open>r = d\<close> step show ?thesis by simp
  qed
qed

lemma accumulate_translator_some:
  "translator a = Some t \<Longrightarrow> translator (accumulate st batch a) = Some t"
  by (induction batch arbitrary: a) (simp_all add: Let_def)

lemma accumulate_translator_first:
  "translator (accumulate st (first # rest) flush_init) =
     Some (source_lang (st first), target_lang (st first))"
  by (simp add: Let_def flush_init_def accumulate_translator_some)

text \<open>
  Claim C2. When a flush reaches the translation call (the batch has a first record, the
  combined list is not empty and no cancellation is observed at line 272), the loop goes
  on and the batch accumulator is empty afterwards whatever the call did; and if the call
  raises with message \<open>msg\<close>, every record of the batch becomes skipped with that message
  and is otherwise unchanged, while every other record of the store (flushed earlier, or
  created later) is left as it was.
\<close>

theorem batch_failure_isolated:
  assumes batch: "translation_batches s = first # rest"
    and nonempty: "combined_blk_list (accumulate (store s) (first # rest) flush_init) \<noteq> []"
    and running: "\<not> (current_worker s \<and> is_cancelled env (polls s))"
  shows "fst (flush_batch env index s) = Continue \<and>
         translation_batches (snd (flush_batch env index s)) = [] \<and>
         (\<forall>msg. translate env (source_lang (store s first), target_lang (store s first))
                  (combined_blk_list (accumulate (store s) (first # rest) flush_init))
                  (image (store s first)) (extra_context env) = Inl msg \<longrightarrow>
            (\<forall>r \<in> set (first # rest).
               store (snd (flush_batch env index s)) r =
                 (store s r)\<lparr>skipped := True, error_message := msg\<rparr>) \<and>
            (\<forall>r. r \<notin> set (first # rest) \<longrightarrow>
               store (snd (flush_batch env index s)) r = store s r))"
  using assms
  by (auto simp: flush_batch_def Let_def check_cancel_def emit_def accumulate_translator_first
        mark_skipped_other mark_skipped_member
      simp del: accumulate.simps mark_skipped.simps split: sum.splits)

theorem batch_failure_isolated_witness:
  "translation_batches sample_state = [0, 1] \<and>
   fst (flush_batch failing_translate_env 1 sample_state) = Continue \<and>
   translation_batches (snd (flush_batch failing_translate_env 1 sample_state)) = [] \<and>
   store (snd (flush_batch failing_translate_env 1 sample_state)) 0 =
     (sample_store 0)\<lparr>skipped := True, error_message := ''boom''\<rparr> \<and>
   store (snd (flush_batch failing_translate_env 1 sample_state)) 1 =
     (sample_store 1)\<lparr>skipped := True, error_message := ''boom''\<rparr> \<and>
   store (snd (flush_batch failing_translate_env 1 sample_state)) 2 = sample_store 2"
proof -
  have batch: "translation_batches sample_state = [0, 1]"
    by (simp add: sample_state_def init_state_def)
  have st: "store sample_state = sample_store"
    by (simp add: sample_state_def init_state_def)
  have nonempty:
    "combined_blk_list (accumulate (store sample_state) [0, 1] flush_init) \<noteq> []"
    by (simp add: st sample_store_def sample_record_def flush_init_def Let_def)
  have running:
    "\<not> (current_worker sample_state \<and> is_cancelled failing_translate_env (polls sample_state))"
    by (simp add: failing_translate_env_def sample_env_def)
  have raises:
    "translate failing_translate_env
       (source_lang (store sample_state 0), target_lang (store sample_state 0))
       (combined_blk_list (accumulate (store sample_state) [0, 1] flush_init))
       (image (store sample_state 0)) (extra_context failing_translate_env) = Inl ''boom''"
    by (simp add: failing_translate_env_def)
  show ?thesis
    using batch_failure_isolated [OF batch nonempty running, of 1] raises batch st
    by simp
qed

section \<open>One translation call per flush\<close>

lemma accumulate_combined_init:
  "combined_blk_list (accumulate st batch flush_init) =
     concat (map (\<lambda>d. blk_list (st d)) batch)"
  by (simp add: accumulate_combined flush_init_def)

text \<open>
  Claim C5. When a batch with a first record and a non-empty combined list is flushed and
  no cancellation is observed at line 272, the flush adds to the trace the progress event
  of step 6 and exactly one call of \<^verbatim>\<open>translate\<close>: by a translator built from the source
  and target languages of the first record, on the blocks of all the records of the batch
  in batch order, with the first record's decoded original image as the context image.
\<close>

theorem flush_makes_one_call:
  assumes batch: "translation_batches s = first # rest"
    and nonempty: "concat (map (\<lambda>d. blk_list (store s d)) (first # rest)) \<noteq> []"
    and running: "\<not> (current_worker s \<and> is_cancelled env (polls s))"
  shows "trace (snd (flush_batch env index s)) =
           trace s @
             [ProgressUpdate index (length (image_files env)) 6 10 False,
              TranslateCall (source_lang (store s first), target_lang (store s first))
                (concat (map (\<lambda>d. blk_list (store s d)) (first # rest)))
                (image (store s first)) (extra_context env)]"
  using assms
  by (auto simp: flush_batch_def Let_def check_cancel_def emit_def accumulate_translator_first
        accumulate_combined_init
      simp del: accumulate.simps split: sum.splits)

theorem flush_makes_one_call_witness:
  "translation_batches sample_state = [0, 1] \<and>
   trace (snd (flush_batch sample_env 1 sample_state)) =
     [ProgressUpdate 1 2 6 10 False,
      TranslateCall (''Japanese'', ''English'') [1, 2, 3] 7 []]"
proof -
  have batch: "translation_batches sample_state = [0, 1]"
    by (simp add: sample_state_def init_state_def)
  have st: "store sample_state = sample_store"
    by (simp add: sample_state_def init_state_def)
  have nonempty: "concat (map (\<lambda>d. blk_list (store sample_state d)) [0, 1]) \<noteq> []"
    by (simp add: st sample_store_def sample_record_def)
  have running:
    "\<not> (current_worker sample_state \<and> is_cancelled sample_env (polls sample_state))"
    by (simp add: sample_env_def)
  show ?thesis
    using flush_makes_one_call [OF batch nonempty running, of 1] batch
    by (simp add: st sample_store_def sample_record_def sample_env_def
          sample_state_def init_state_def)
qed

section \<open>A skipped last image leaves the batch unflushed\<close>

text \<open>
  Claim C3 fails on the code. The flush test of line 253 is reached only by an image that
  gets as far as line 250. With two images of which the second has no text block, the
  record of the first is appended to the batch (one record, not the last image: no flush),
  the second iteration leaves through the \<^verbatim>\<open>continue\<close> of line 198, and the loop ends with
  the record still in the accumulator: no translation call is made, the record is not marked
  skipped, and post-processing renders its untranslated blocks as the translated output.
\<close>

theorem trailing_skip_leaves_batch_unflushed:
  "image_files trailing_skip_env = [''a.png'', ''b.png''] \<and>
   fst (batch_process trailing_skip_env sample_store) = None \<and>
   translation_batches (snd (batch_process trailing_skip_env sample_store)) = [0] \<and>
   filter is_translate_call (trace (snd (batch_process trailing_skip_env sample_store))) = [] \<and>
   skipped (store (snd (batch_process trailing_skip_env sample_store)) 0) = False \<and>
   filter is_translated_output (trace (snd (batch_process trailing_skip_env sample_store))) =
     [ImWrite [''dir'', ''comic_translate_ts'', ''translated_images'', [], ''b_translated.png''] 5,
      RenderSave [''dir'', ''comic_translate_ts'', ''translated_images'', [], ''a_translated.png'']
        9 [1, 2]]"
  by (simp add: run_defs trailing_skip_env_def sample_env_def)

section \<open>An OCR failure skips one image\<close>



section \<open>Skipped images and their output files\<close>


section \<open>Every skip event comes with the saved original\<close>




lemma run_ok_check_cancel [simp]: "run_ok env (snd (check_cancel env s)) = run_ok env s"
  by (simp add: run_ok_def entries_ok_def check_cancel_def)

lemma run_ok_worker [simp]: "run_ok env (s\<lparr>current_worker := w\<rparr>) = run_ok env s"
  by (simp add: run_ok_def entries_ok_def)



lemma record_of_marked [simp]:
  "record_of env p (d\<lparr>skipped := a, error_message := b\<rparr>) = record_of env p d"
  by (simp add: record_of_def)

lemma record_of_blocks [simp]:
  "record_of env p (d\<lparr>blk_list := b\<rparr>) = record_of env p d"
  by (simp add: record_of_def)












lemma emit_keeps_data [simp]:
  "store (emit e s) = store s" "next_ref (emit e s) = next_ref s"
  "image_batches_data (emit e s) = image_batches_data s"
  by (simp_all add: emit_def)

lemma check_cancel_keeps_data [simp]:
  "store (snd (check_cancel env s)) = store s"
  "next_ref (snd (check_cancel env s)) = next_ref s"
  "image_batches_data (snd (check_cancel env s)) = image_batches_data s"
  by (simp_all add: check_cancel_def)













section \<open>The archiving pass\<close>

text \<open>
  Claim C7, as the code has it. \<^verbatim>\<open>make\<close> is called outside any \<^verbatim>\<open>try\<close>: when it
  raises for an archive (no cancellation observed before it), the exception leaves the
  loop with the trace ending at that call, and no archive after it is attempted.
\<close>

theorem make_failure_stops_archiving:
  assumes running: "\<not> (current_worker s \<and>
                      (is_cancelled env (polls s) \<or> is_cancelled env (Suc (polls s))))"
    and format: "save_as env (str_lower env (path_ext env (archive_path a))) = Some fmt"
    and failure: "make_archive env (''.'' @ fmt)
                    (run_dir (path_dirname env (archive_path a)) (now_timestamp env)
                       @ [''translated_images'', path_splitext_basename env (archive_path a)])
                    (path_dirname env (archive_path a))
                    (path_splitext_basename env (archive_path a)) = Some e"
  shows "fst (archive_loop env archive_index (a # rest) s) = Raise e \<and>
         trace (snd (archive_loop env archive_index (a # rest) s)) =
           trace s @
             [ProgressUpdate (length (image_files env) + archive_index)
                (length (image_files env)) 1 3 True,
              ProgressUpdate (length (image_files env) + archive_index)
                (length (image_files env)) 2 3 True,
              MakeArchive (''.'' @ fmt)
                (run_dir (path_dirname env (archive_path a)) (now_timestamp env)
                   @ [''translated_images'', path_splitext_basename env (archive_path a)])
                (path_dirname env (archive_path a))
                (path_splitext_basename env (archive_path a))]"
  using assms
  by (auto simp: archive_step_def Let_def check_cancel_def emit_def)

theorem make_failure_stops_archiving_witness:
  "fst (archive_loop failing_make_env 0 two_archives (init_state sample_store)) =
     Raise ''disk full'' \<and>
   trace (snd (archive_loop failing_make_env 0 two_archives (init_state sample_store))) =
     [ProgressUpdate 0 0 1 3 True, ProgressUpdate 0 0 2 3 True,
      MakeArchive ''.zip'' [''dir'', ''comic_translate_ts'', ''translated_images'', ''one'']
        ''dir'' ''one'']"
proof -
  let ?a = "\<lparr>archive_path = ''one.cbz'', extracted_images = []\<rparr>"
  let ?b = "\<lparr>archive_path = ''two.cbz'', extracted_images = []\<rparr>"
  have running:
    "\<not> (current_worker (init_state sample_store) \<and>
        (is_cancelled failing_make_env (polls (init_state sample_store)) \<or>
         is_cancelled failing_make_env (Suc (polls (init_state sample_store)))))"
    by (simp add: failing_make_env_def sample_env_def)
  have format:
    "save_as failing_make_env
       (str_lower failing_make_env (path_ext failing_make_env (archive_path ?a))) = Some ''zip''"
    by (simp add: failing_make_env_def sample_env_def)
  have failure:
    "make_archive failing_make_env (''.'' @ ''zip'')
       (run_dir (path_dirname failing_make_env (archive_path ?a)) (now_timestamp failing_make_env)
          @ [''translated_images'', path_splitext_basename failing_make_env (archive_path ?a)])
       (path_dirname failing_make_env (archive_path ?a))
       (path_splitext_basename failing_make_env (archive_path ?a)) = Some ''disk full''"
    by (simp add: failing_make_env_def sample_env_def)
  show ?thesis
    using make_failure_stops_archiving [OF running format failure, of 0 "[?b]"]
    by (simp add: two_archives_def failing_make_env_def sample_env_def init_state_def
          run_dir_def)
qed

text \<open>
  The claim as the specification states it fails: of two archives, the second is never
  packaged when \<^verbatim>\<open>make\<close> raises on the first, and the exception ends the run.
\<close>

theorem make_failure_blocks_remaining_archives:
  "archive_info failing_make_env = two_archives \<and>
   length two_archives = 2 \<and>
   fst (batch_process failing_make_env sample_store) = Some ''disk full'' \<and>
   filter is_make_archive (trace (snd (batch_process failing_make_env sample_store))) =
     [MakeArchive ''.zip'' [''dir'', ''comic_translate_ts'', ''translated_images'', ''one'']
        ''dir'' ''one'']"
  by (simp add: run_defs failing_make_env_def sample_env_def two_archives_def)




section \<open>\<^verbatim>\<open>GPTOCR.process_image\<close> never raises\<close>

lemma and_then_Inr [simp]: "and_then (Inr v) f = f v"
  by (simp add: and_then_def)

lemma and_then_Inl [simp]: "and_then (Inl e) f = Inl e"
  by (simp add: and_then_def)



lemma process_image_length: "length (process_image self img blks) = length blks"
  by (simp add: process_image_def)

lemma process_image_nth:
  "i < length blks \<Longrightarrow> process_image self img blks ! i = process_block self img i (blks ! i)"
  by (simp add: process_image_def nth_enumerate_eq)

lemma get_gpt_ocr_failures:
  assumes "ocr_api_key self \<noteq> None" and "ocr_api_key self \<noteq> Some []"
  shows "ocr_post self i c = RequestFailed m \<Longrightarrow> get_gpt_ocr self i c = Inr (JStr [])"
    and "ocr_post self i c = Response resp \<Longrightarrow> status_code resp \<noteq> 200 \<Longrightarrow>
         get_gpt_ocr self i c = Inr (JStr [])"
  using assms by (simp_all add: get_gpt_ocr_def)

lemma process_block_keeps_box:
  "(process_block self img i blk)\<lparr>blk_text := blk_text blk\<rparr> = blk"
  by (simp add: process_block_def and_then_def split: sum.splits)


text \<open>
  Claim C9, as the code has it. \<^verbatim>\<open>process_image\<close> is total: it returns a list of the
  length of its input whose \<open>i\<close>-th block is the \<open>i\<close>-th input block processed, and
  processing changes at most the block's text. The text is set to the empty string when
  the computation of the box raises, when the encoding of the crop raises, when the API key
  is missing, when the request raises and when the response's status is not 200. A block
  whose box fails the test of line 61 is left as it was: its text is not touched.
\<close>

theorem process_image_block_failures:
  "length (process_image self img blks) = length blks \<and>
   (\<forall>i < length blks.
      process_image self img blks ! i = process_block self img i (blks ! i)) \<and>
   (process_block self img i blk)\<lparr>blk_text := blk_text blk\<rparr> = blk \<and>
   (block_box self img blk = Inl e \<longrightarrow>
      process_block self img i blk = blk\<lparr>blk_text := JStr []\<rparr>) \<and>
   (block_box self img blk = Inr b \<and> \<not> valid_box self img b \<longrightarrow>
      process_block self img i blk = blk) \<and>
   (block_box self img blk = Inr b \<and> valid_box self img b \<and>
    encode_crop self img b = Inl e \<longrightarrow>
      process_block self img i blk = blk\<lparr>blk_text := JStr []\<rparr>) \<and>
   (block_box self img blk = Inr b \<and> valid_box self img b \<and>
    encode_crop self img b = Inr c \<and>
    (ocr_api_key self = None \<or> ocr_api_key self = Some []) \<longrightarrow>
      process_block self img i blk = blk\<lparr>blk_text := JStr []\<rparr>) \<and>
   (block_box self img blk = Inr b \<and> valid_box self img b \<and>
    encode_crop self img b = Inr c \<and>
    ocr_api_key self \<noteq> None \<and> ocr_api_key self \<noteq> Some [] \<and>
    (ocr_post self i c = RequestFailed m \<or>
     (\<exists>resp. ocr_post self i c = Response resp \<and> status_code resp \<noteq> 200)) \<longrightarrow>
      process_block self img i blk = blk\<lparr>blk_text := JStr []\<rparr>)"
proof -
  have raised: "block_box self img blk = Inl e \<longrightarrow>
      process_block self img i blk = blk\<lparr>blk_text := JStr []\<rparr>"
    by (simp add: process_block_def)
  have invalid: "block_box self img blk = Inr b \<and> \<not> valid_box self img b \<longrightarrow>
      process_block self img i blk = blk"
    by (simp add: process_block_def)
  have encoding: "block_box self img blk = Inr b \<and> valid_box self img b \<and>
    encode_crop self img b = Inl e \<longrightarrow>
      process_block self img i blk = blk\<lparr>blk_text := JStr []\<rparr>"
    by (simp add: process_block_def)
  have key: "block_box self img blk = Inr b \<and> valid_box self img b \<and>
    encode_crop self img b = Inr c \<and>
    (ocr_api_key self = None \<or> ocr_api_key self = Some []) \<longrightarrow>
      process_block self img i blk = blk\<lparr>blk_text := JStr []\<rparr>"
    by (auto simp: process_block_def get_gpt_ocr_def)
  have request: "block_box self img blk = Inr b \<and> valid_box self img b \<and>
    encode_crop self img b = Inr c \<and>
    ocr_api_key self \<noteq> None \<and> ocr_api_key self \<noteq> Some [] \<and>
    (ocr_post self i c = RequestFailed m \<or>
     (\<exists>resp. ocr_post self i c = Response resp \<and> status_code resp \<noteq> 200)) \<longrightarrow>
      process_block self img i blk = blk\<lparr>blk_text := JStr []\<rparr>"
    using get_gpt_ocr_failures [of self i c]
    by (auto simp: process_block_def)
  have whole: "length (process_image self img blks) = length blks \<and>
   (\<forall>i < length blks.
      process_image self img blks ! i = process_block self img i (blks ! i))"
    by (simp add: process_image_length process_image_nth)
  have kept: "(process_block self img i blk)\<lparr>blk_text := blk_text blk\<rparr> = blk"
    by (rule process_block_keeps_box)
  from whole kept raised invalid encoding key request show ?thesis
    by blast
qed

theorem process_image_block_failures_witness:
  "process_block sample_ocr 0 0 (old_block (- 1, 0, 5, 5) None) =
     (old_block (- 1, 0, 5, 5) None)\<lparr>blk_text := JStr []\<rparr> \<and>
   process_block sample_ocr 0 1 (old_block (0, 0, 0, 0) (Some (1, 0, 5, 5))) =
     (old_block (0, 0, 0, 0) (Some (1, 0, 5, 5)))\<lparr>blk_text := JStr []\<rparr> \<and>
   process_block sample_ocr 0 2 (old_block (0, 0, 0, 0) (Some (90, 10, 120, 40))) =
     old_block (0, 0, 0, 0) (Some (90, 10, 120, 40)) \<and>
   process_block sample_ocr 0 3 (old_block (2, 0, 5, 5) None) =
     (old_block (2, 0, 5, 5) None)\<lparr>blk_text := JStr []\<rparr> \<and>
   process_block sample_ocr 0 4 (old_block (2, 0, 5, 5) None) =
     (old_block (2, 0, 5, 5) None)\<lparr>blk_text := JStr []\<rparr> \<and>
   process_block (sample_ocr\<lparr>ocr_api_key := None\<rparr>) 0 5 (old_block (2, 0, 5, 5) None) =
     (old_block (2, 0, 5, 5) None)\<lparr>blk_text := JStr []\<rparr> \<and>
   length (process_image sample_ocr 0 sample_blocks) = 6"
proof -
  note defs = sample_ocr_def old_block_def block_box_def valid_box_def ok_response_def
  have raised: "block_box sample_ocr 0 (old_block (- 1, 0, 5, 5) None) =
      Inl (OtherError ''bad box'')"
    by (simp add: defs)
  have boxes:
    "block_box sample_ocr 0 (old_block (0, 0, 0, 0) (Some (1, 0, 5, 5))) = Inr (1, 0, 5, 5)"
    "block_box sample_ocr 0 (old_block (0, 0, 0, 0) (Some (90, 10, 120, 40))) =
       Inr (90, 10, 120, 40)"
    "block_box sample_ocr 0 (old_block (2, 0, 5, 5) None) = Inr (2, 0, 5, 5)"
    "block_box (sample_ocr\<lparr>ocr_api_key := None\<rparr>) 0 (old_block (2, 0, 5, 5) None) =
       Inr (2, 0, 5, 5)"
    by (simp_all add: defs)
  have valid: "valid_box sample_ocr 0 (1, 0, 5, 5)" "\<not> valid_box sample_ocr 0 (90, 10, 120, 40)"
    "valid_box sample_ocr 0 (2, 0, 5, 5)"
    "valid_box (sample_ocr\<lparr>ocr_api_key := None\<rparr>) 0 (2, 0, 5, 5)"
    by (simp_all add: defs)
  have encoded: "encode_crop sample_ocr 0 (1, 0, 5, 5) = Inl (OtherError ''encode'')"
    "encode_crop sample_ocr 0 (2, 0, 5, 5) = Inr ''AAAA''"
    "encode_crop (sample_ocr\<lparr>ocr_api_key := None\<rparr>) 0 (2, 0, 5, 5) = Inr ''AAAA''"
    by (simp_all add: defs)
  have key: "ocr_api_key sample_ocr \<noteq> None" "ocr_api_key sample_ocr \<noteq> Some []"
    "ocr_api_key (sample_ocr\<lparr>ocr_api_key := None\<rparr>) = None"
    by (simp_all add: defs)
  have posted: "ocr_post sample_ocr 3 ''AAAA'' = RequestFailed ''timeout''"
    "ocr_post sample_ocr 4 ''AAAA'' =
       Response \<lparr>status_code = 500, json_body = Inl ''no JSON'', http_error = ''500''\<rparr>"
    by (simp_all add: defs)
  have len: "length sample_blocks = 6"
    by (simp add: sample_blocks_def)
  show ?thesis
    using
      process_image_block_failures [where self = sample_ocr and img = 0
        and blks = sample_blocks and i = 0 and blk = "old_block (- 1, 0, 5, 5) None"
        and e = "OtherError ''bad box''"]
      process_image_block_failures [where self = sample_ocr and img = 0
        and blks = sample_blocks and i = 1
        and blk = "old_block (0, 0, 0, 0) (Some (1, 0, 5, 5))"
        and e = "OtherError ''encode''" and b = "(1, 0, 5, 5)"]
      process_image_block_failures [where self = sample_ocr and img = 0
        and blks = sample_blocks and i = 2
        and blk = "old_block (0, 0, 0, 0) (Some (90, 10, 120, 40))"
        and b = "(90, 10, 120, 40)"]
      process_image_block_failures [where self = sample_ocr and img = 0
        and blks = sample_blocks and i = 3 and blk = "old_block (2, 0, 5, 5) None"
        and b = "(2, 0, 5, 5)" and c = "''AAAA''" and m = "''timeout''"]
      process_image_block_failures [where self = sample_ocr and img = 0
        and blks = sample_blocks and i = 4 and blk = "old_block (2, 0, 5, 5) None"
        and b = "(2, 0, 5, 5)" and c = "''AAAA''"]
      process_image_block_failures [where self = "sample_ocr\<lparr>ocr_api_key := None\<rparr>"
        and img = 0 and blks = sample_blocks and i = 5
        and blk = "old_block (2, 0, 5, 5) None" and b = "(2, 0, 5, 5)" and c = "''AAAA''"]
      raised boxes valid encoded key posted len
    by simp
qed

text \<open>
  The claim as the specification states it fails for bad coordinates: a block whose box
  lies outside the test of line 61 keeps the text it had.
\<close>

theorem invalid_box_keeps_text:
  "valid_box sample_ocr 0 (90, 10, 120, 40) = False \<and>
   map blk_text
     (process_image sample_ocr 0 [old_block (0, 0, 0, 0) (Some (90, 10, 120, 40))]) =
     [JStr ''old'']"
  by (simp add: process_image_def process_block_def block_box_def valid_box_def
        sample_ocr_def old_block_def)

section \<open>\<^verbatim>\<open>_make_api_request\<close> returns extracted text or raises\<close>










end
